theory Spec2Isabelle
  imports Complex_Main "HOL-Library.AList" "HOL-Library.Multiset" "HOL-Library.Product_Lexorder"
begin

section \<open>Conventions of the embedding\<close>

text \<open>
  The server is Python. A \<open>str\<close> is modelled by \<^typ>\<open>string\<close>, one \<^typ>\<open>char\<close> for each
  character of the Python string. The string literals of the source are Chinese; each is
  rendered here by an English gloss with the same role, and no theorem depends on the glyphs.
  A \<open>float\<close> is modelled by an exact rational (\<^typ>\<open>rat\<close>): comparisons against the literals
  of the source (4.5, 2.5, 0) are exact on floats as well, and the arithmetic of the running
  mean is the arithmetic of the formula, without the rounding of IEEE doubles.
  A \<open>datetime\<close> is an \<^typ>\<open>int\<close>, the number of microseconds since the epoch; the clock
  \<open>datetime.now()\<close> is an argument of every operation that reads it.
  An exception is a value of \<open>error\<close>, returned as \<open>Inl\<close>.
\<close>

datatype error = StopIteration | ZeroDivisionError | ValueError | ValidationError | LLMError

section \<open>cache.py: the LRU cache with a time to live\<close>

text \<open>
  \<open>self.cache\<close> is an \<open>OrderedDict\<close>: an association list with distinct keys, oldest
  first. \<open>self.timestamps\<close> is a plain dictionary from keys to the time of the last \<open>set\<close>.
\<close>

record 'v LRUCache =
  max_size :: int
  ttl :: int
  cache :: "(string \<times> 'v) list"
  timestamps :: "string \<rightharpoonup> int"

definition LRUCache_init :: "int \<Rightarrow> int \<Rightarrow> 'v LRUCache" where
  "LRUCache_init m t = \<lparr>max_size = m, ttl = t, cache = [], timestamps = Map.empty\<rparr>"

definition keys :: "'v LRUCache \<Rightarrow> string list" where
  "keys c = map fst (cache c)"

text \<open>\<open>OrderedDict.move_to_end(key)\<close>, called by the source only when the key is present.\<close>

definition move_to_end :: "string \<Rightarrow> (string \<times> 'v) list \<Rightarrow> (string \<times> 'v) list" where
  "move_to_end key al =
     (case map_of al key of
        None \<Rightarrow> al
      | Some v \<Rightarrow> AList.delete key al @ [(key, v)])"

definition LRUCache_delete :: "string \<Rightarrow> 'v LRUCache \<Rightarrow> 'v LRUCache" where
  "LRUCache_delete key c =
     c\<lparr>cache := AList.delete key (cache c), timestamps := (timestamps c)(key := None)\<rparr>"

text \<open>A \<open>timedelta(seconds=ttl)\<close> is \<open>ttl * 1000000\<close> microseconds.\<close>

definition expired :: "int \<Rightarrow> string \<Rightarrow> 'v LRUCache \<Rightarrow> bool" where
  "expired now key c =
     (case timestamps c key of
        None \<Rightarrow> False
      | Some t \<Rightarrow> now - t > ttl c * 1000000)"

text \<open>\<open>get\<close> returns the value, or \<open>None\<close> for a miss, and the cache it leaves behind.\<close>

definition LRUCache_get :: "int \<Rightarrow> string \<Rightarrow> 'v LRUCache \<Rightarrow> 'v option \<times> 'v LRUCache" where
  "LRUCache_get now key c =
     (case map_of (cache c) key of
        None \<Rightarrow> (None, c)
      | Some v \<Rightarrow>
          if expired now key c then (None, LRUCache_delete key c)
          else (Some v, c\<lparr>cache := move_to_end key (cache c)\<rparr>))"

text \<open>
  \<open>set\<close>: \<open>next(iter(self.cache))\<close> raises \<open>StopIteration\<close> on an empty dictionary, which
  happens when \<open>max_size\<close> is not positive.
\<close>

definition store :: "int \<Rightarrow> string \<Rightarrow> 'v \<Rightarrow> 'v LRUCache \<Rightarrow> 'v LRUCache" where
  "store now key v c =
     c\<lparr>cache := AList.update key v (cache c), timestamps := (timestamps c)(key \<mapsto> now)\<rparr>"

definition LRUCache_set :: "int \<Rightarrow> string \<Rightarrow> 'v \<Rightarrow> 'v LRUCache \<Rightarrow> error + 'v LRUCache" where
  "LRUCache_set now key v c =
     (if key \<in> set (keys c) then
        Inr (store now key v (c\<lparr>cache := move_to_end key (cache c)\<rparr>))
      else if int (length (cache c)) \<ge> max_size c then
        (case cache c of
           [] \<Rightarrow> Inl StopIteration
         | (oldest_key, _) # _ \<Rightarrow> Inr (store now key v (LRUCache_delete oldest_key c)))
      else Inr (store now key v c))"

definition LRUCache_clear :: "'v LRUCache \<Rightarrow> 'v LRUCache" where
  "LRUCache_clear c = c\<lparr>cache := [], timestamps := Map.empty\<rparr>"


subsection \<open>Traces of cache operations and the time of the last touch\<close>

datatype 'v cache_op =
    Get int string
  | Set int string 'v
  | Delete string
  | Clear

fun step :: "'v cache_op \<Rightarrow> 'v LRUCache \<Rightarrow> error + 'v LRUCache" where
  "step (Get now key) c = Inr (snd (LRUCache_get now key c))"
| "step (Set now key v) c = LRUCache_set now key v c"
| "step (Delete key) c = Inr (LRUCache_delete key c)"
| "step Clear c = Inr (LRUCache_clear c)"

text \<open>
  The key an operation touches: a \<open>set\<close> touches its key, a \<open>get\<close> touches its key when
  it is a hit.
\<close>

fun touched :: "'v cache_op \<Rightarrow> 'v LRUCache \<Rightarrow> string option" where
  "touched (Get now key) c = (if fst (LRUCache_get now key c) = None then None else Some key)"
| "touched (Set now key v) c = Some key"
| "touched (Delete key) c = None"
| "touched Clear c = None"

text \<open>
  \<open>run n lt c ops\<close> runs the operations \<open>ops\<close> from the cache \<open>c\<close>, numbering them from
  \<open>n\<close>, and records in \<open>lt\<close> the number of the last operation that touched each key.
\<close>

fun run :: "nat \<Rightarrow> (string \<rightharpoonup> nat) \<Rightarrow> 'v LRUCache \<Rightarrow> 'v cache_op list
    \<Rightarrow> error + ('v LRUCache \<times> (string \<rightharpoonup> nat))" where
  "run n lt c [] = Inr (c, lt)"
| "run n lt c (x # xs) =
     (case step x c of
        Inl e \<Rightarrow> Inl e
      | Inr c' \<Rightarrow>
          run (Suc n) (case touched x c of None \<Rightarrow> lt | Some k \<Rightarrow> lt(k \<mapsto> n)) c' xs)"



section \<open>models.py and database.py: training content\<close>

datatype ContentType = TRAINING_MATERIAL | SALES_SCRIPT | Q_A | BEST_PRACTICE

fun ContentType_value :: "ContentType \<Rightarrow> string" where
  "ContentType_value TRAINING_MATERIAL = ''training_material''"
| "ContentType_value SALES_SCRIPT = ''sales_script''"
| "ContentType_value Q_A = ''qa''"
| "ContentType_value BEST_PRACTICE = ''best_practice''"

text \<open>\<open>ContentType(value)\<close> raises \<open>ValueError\<close> for a string that names no member.\<close>

definition ContentType_of :: "string \<Rightarrow> error + ContentType" where
  "ContentType_of s =
     (if s = ''training_material'' then Inr TRAINING_MATERIAL
      else if s = ''sales_script'' then Inr SALES_SCRIPT
      else if s = ''qa'' then Inr Q_A
      else if s = ''best_practice'' then Inr BEST_PRACTICE
      else Inl ValueError)"

record TrainingContent =
  tc_id :: "string option"
  tc_title :: string
  tc_content :: string
  tc_content_type :: ContentType
  tc_tags :: "string list"
  tc_created_by :: string
  tc_created_at :: int
  tc_usage_count :: int
  tc_effectiveness_score :: "rat option"

text \<open>
  A row of the table \<open>training_contents\<close>. The columns \<open>tags\<close>, \<open>usage_count\<close> and
  \<open>effectiveness_score\<close> may be null; the others are always written by \<open>add_content\<close>.
\<close>

record TrainingContentModel =
  row_id :: string
  row_title :: string
  row_content :: string
  row_content_type :: string
  row_tags :: "string list option"
  row_created_by :: string
  row_created_at :: int
  row_usage_count :: "int option"
  row_effectiveness_score :: "rat option"

text \<open>
  The constructor of the pydantic model checks the declared field constraints and then runs
  the validator \<open>validate_not_empty\<close>, which strips the three text fields.
\<close>

definition py_space :: "char \<Rightarrow> bool" where
  "py_space ch \<longleftrightarrow> (let n = (of_char ch :: nat) in
     (9 \<le> n \<and> n \<le> 13) \<or> (28 \<le> n \<and> n \<le> 32) \<or> n = 133 \<or> n = 160)"

definition strip :: "string \<Rightarrow> string" where
  "strip s = rev (dropWhile py_space (rev (dropWhile py_space s)))"

definition TrainingContent_new :: "TrainingContent \<Rightarrow> error + TrainingContent" where
  "TrainingContent_new c =
     (if length (tc_title c) < 1 \<or> length (tc_title c) > 200
         \<or> length (tc_content c) < 1 \<or> length (tc_content c) > 10000
         \<or> length (tc_tags c) > 20
         \<or> length (tc_created_by c) < 1 \<or> length (tc_created_by c) > 100
         \<or> tc_usage_count c < 0
         \<or> (case tc_effectiveness_score c of None \<Rightarrow> False | Some s \<Rightarrow> s < 0 \<or> s > 5)
         \<or> strip (tc_title c) = [] \<or> strip (tc_content c) = [] \<or> strip (tc_created_by c) = []
      then Inl ValidationError
      else Inr (c\<lparr>tc_title := strip (tc_title c), tc_content := strip (tc_content c),
                  tc_created_by := strip (tc_created_by c)\<rparr>))"

text \<open>
  A row read back as a model object. \<open>_load_from_database\<close> and \<open>get_content\<close> replace a
  null \<open>usage_count\<close> by 0; \<open>search_content\<close> passes it on, and the constructor refuses it.
\<close>

definition row_to_content :: "bool \<Rightarrow> TrainingContentModel \<Rightarrow> error + TrainingContent" where
  "row_to_content or_zero r =
     (case ContentType_of (row_content_type r) of
        Inl e \<Rightarrow> Inl e
      | Inr ct \<Rightarrow>
          (case (if or_zero then Some (case row_usage_count r of None \<Rightarrow> 0 | Some n \<Rightarrow> n)
                 else row_usage_count r) of
             None \<Rightarrow> Inl ValidationError
           | Some n \<Rightarrow>
               TrainingContent_new
                 \<lparr>tc_id = Some (row_id r), tc_title = row_title r, tc_content = row_content r,
                  tc_content_type = ct,
                  tc_tags = (case row_tags r of None \<Rightarrow> [] | Some ts \<Rightarrow> ts),
                  tc_created_by = row_created_by r, tc_created_at = row_created_at r,
                  tc_usage_count = n,
                  tc_effectiveness_score = row_effectiveness_score r\<rparr>))"

section \<open>knowledge_base.py: the content mirror, the tag index and the search\<close>

text \<open>
  The content objects live in a store, addressed by references: the mirror, the lists that
  \<open>search_content\<close> returns and the lists that the cache keeps all hold references, so a
  change of an object by \<open>update_effectiveness\<close> is seen through each of them.
  \<open>self.contents\<close> is a dictionary in insertion order from content ids to references;
  \<open>self.search_index\<close> maps a tag to a list of content ids. The table is a map from the
  primary key to the row.
\<close>

type_synonym ref = nat

record object_store =
  objs :: "ref \<Rightarrow> TrainingContent"
  next_ref :: ref

record KnowledgeBase =
  contents :: "(string \<times> ref) list"
  search_index :: "string \<rightharpoonup> string list"

type_synonym content_table = "string \<rightharpoonup> TrainingContentModel"

definition KnowledgeBase_empty :: KnowledgeBase where
  "KnowledgeBase_empty = \<lparr>contents = [], search_index = Map.empty\<rparr>"

text \<open>The construction of an object: it gets the next free reference.\<close>

definition new_object :: "TrainingContent \<Rightarrow> object_store \<Rightarrow> ref \<times> object_store" where
  "new_object c st =
     (next_ref st, st\<lparr>objs := (objs st)(next_ref st := c), next_ref := Suc (next_ref st)\<rparr>)"

fun new_objects :: "TrainingContent list \<Rightarrow> object_store \<Rightarrow> ref list \<times> object_store" where
  "new_objects [] st = ([], st)"
| "new_objects (c # cs) st =
     (let (r, st1) = new_object c st; (rs, st2) = new_objects cs st1 in (r # rs, st2))"

text \<open>The loop that adds an id under each tag; \<open>dedup\<close> is the membership test of the loader.\<close>

fun index_tags :: "bool \<Rightarrow> string \<Rightarrow> string list \<Rightarrow> (string \<rightharpoonup> string list)
    \<Rightarrow> (string \<rightharpoonup> string list)" where
  "index_tags dedup cid [] idx = idx"
| "index_tags dedup cid (tag # tags) idx =
     (let ids = (case idx tag of None \<Rightarrow> [] | Some l \<Rightarrow> l)
      in index_tags dedup cid tags
           (idx(tag \<mapsto> (if dedup \<and> cid \<in> set ids then ids else ids @ [cid]))))"

text \<open>
  \<open>_load_from_database\<close>, run by the constructor over the rows of the table: each row
  becomes an object of the mirror and its tags go to the index. An exception ends the loop
  and is logged.
\<close>

fun load_from_database :: "TrainingContentModel list \<Rightarrow> object_store \<Rightarrow> KnowledgeBase
    \<Rightarrow> object_store \<times> KnowledgeBase" where
  "load_from_database [] st kb = (st, kb)"
| "load_from_database (r # rs) st kb =
     (case row_to_content True r of
        Inl e \<Rightarrow> (st, kb)
      | Inr c \<Rightarrow>
          load_from_database rs (snd (new_object c st))
            \<lparr>contents = AList.update (row_id r) (fst (new_object c st)) (contents kb),
             search_index = index_tags True (row_id r) (tc_tags c) (search_index kb)\<rparr>)"

text \<open>
  \<open>add_content\<close> is given the reference of the content object. The id is the one of the
  content, or a fresh one (\<open>fresh_id\<close>, from \<open>uuid4\<close>) when it is absent or empty, and it
  is written into the object. The commit fails on a primary key that exists; the failure is
  logged and the mirror is updated all the same. The vector collaborator is not part of the
  state.
\<close>

definition content_row :: "string \<Rightarrow> TrainingContent \<Rightarrow> TrainingContentModel" where
  "content_row cid c =
     \<lparr>row_id = cid, row_title = tc_title c, row_content = tc_content c,
      row_content_type = ContentType_value (tc_content_type c),
      row_tags = Some (tc_tags c), row_created_by = tc_created_by c,
      row_created_at = tc_created_at c,
      row_usage_count = Some (tc_usage_count c),
      row_effectiveness_score = tc_effectiveness_score c\<rparr>"

definition add_content :: "string \<Rightarrow> ref \<Rightarrow> content_table \<Rightarrow> object_store \<Rightarrow> KnowledgeBase
    \<Rightarrow> string \<times> content_table \<times> object_store \<times> KnowledgeBase" where
  "add_content fresh_id content db st kb =
     (let content_id = (case tc_id (objs st content) of None \<Rightarrow> fresh_id
                        | Some i \<Rightarrow> if i = [] then fresh_id else i);
          c = (objs st content)\<lparr>tc_id := Some content_id\<rparr>;
          db' = (if content_id \<in> dom db then db else db(content_id \<mapsto> content_row content_id c))
      in (content_id, db', st\<lparr>objs := (objs st)(content := c)\<rparr>,
          \<lparr>contents = AList.update content_id content (contents kb),
           search_index = index_tags False content_id (tc_tags c) (search_index kb)\<rparr>))"

text \<open>\<open>get_content\<close>: the mirror first, then the table; a row found is put in the mirror.\<close>

definition get_content :: "string \<Rightarrow> content_table \<Rightarrow> object_store \<Rightarrow> KnowledgeBase
    \<Rightarrow> error + (ref option \<times> object_store \<times> KnowledgeBase)" where
  "get_content content_id db st kb =
     (case map_of (contents kb) content_id of
        Some r \<Rightarrow> Inr (Some r, st, kb)
      | None \<Rightarrow>
          (case db content_id of
             None \<Rightarrow> Inr (None, st, kb)
           | Some row \<Rightarrow>
               (case row_to_content True row of
                  Inl e \<Rightarrow> Inl e
                | Inr c \<Rightarrow>
                    Inr (Some (fst (new_object c st)), snd (new_object c st),
                         kb\<lparr>contents := AList.update content_id (fst (new_object c st))
                                           (contents kb)\<rparr>))))"

text \<open>\<open>update_effectiveness\<close> changes the object of the mirror in place.\<close>

definition update_effectiveness :: "string \<Rightarrow> rat \<Rightarrow> object_store \<Rightarrow> KnowledgeBase
    \<Rightarrow> object_store" where
  "update_effectiveness content_id score st kb =
     (case map_of (contents kb) content_id of
        None \<Rightarrow> st
      | Some r \<Rightarrow>
          st\<lparr>objs := (objs st)(r := (objs st r)\<lparr>tc_effectiveness_score := Some score,
                                  tc_usage_count := tc_usage_count (objs st r) + 1\<rparr>)\<rparr>)"

subsection \<open>The search\<close>

text \<open>\<open>str.lower()\<close> on the characters of the type \<^typ>\<open>char\<close>.\<close>

definition lower_char :: "char \<Rightarrow> char" where
  "lower_char ch = (let n = (of_char ch :: nat) in
     if (65 \<le> n \<and> n \<le> 90) \<or> (192 \<le> n \<and> n \<le> 222 \<and> n \<noteq> 215) then char_of (n + 32) else ch)"

definition lower :: "string \<Rightarrow> string" where
  "lower s = map lower_char s"

text \<open>\<open>a in b\<close> on strings: \<open>a\<close> occurs in \<open>b\<close> as a contiguous substring.\<close>

fun substring_in :: "string \<Rightarrow> string \<Rightarrow> bool" where
  "substring_in a [] \<longleftrightarrow> a = []"
| "substring_in a (y # ys) \<longleftrightarrow> take (length a) (y # ys) = a \<or> substring_in a ys"

record vector_result =
  vr_id :: string
  vr_content :: string
  vr_metadata :: "string \<rightharpoonup> string"

definition cache_key :: "string \<Rightarrow> ContentType option \<Rightarrow> string" where
  "cache_key query content_type =
     ''search:'' @ query @ '':'' @
       (case content_type of None \<Rightarrow> ''all'' | Some t \<Rightarrow> ContentType_value t)"

text \<open>
  The loop over the vector results: the rows they name, filtered by type, each read into
  a model object that is new to the store.
\<close>

fun resolve :: "content_table \<Rightarrow> ContentType option \<Rightarrow> vector_result list
    \<Rightarrow> error + TrainingContent list" where
  "resolve db content_type [] = Inr []"
| "resolve db content_type (r # rs) =
     (case vr_metadata r ''id'' of
        None \<Rightarrow> resolve db content_type rs
      | Some content_id \<Rightarrow>
          if content_id = [] then resolve db content_type rs
          else
            (case db content_id of
               None \<Rightarrow> resolve db content_type rs
             | Some row \<Rightarrow>
                 if content_type \<noteq> None
                    \<and> row_content_type row \<noteq> ContentType_value (the content_type)
                 then resolve db content_type rs
                 else
                   (case row_to_content False row of
                      Inl e \<Rightarrow> Inl e
                    | Inr c \<Rightarrow>
                        (case resolve db content_type rs of
                           Inl e \<Rightarrow> Inl e
                         | Inr cs \<Rightarrow> Inr (c # cs)))))"

definition type_allowed :: "ContentType option \<Rightarrow> TrainingContent \<Rightarrow> bool" where
  "type_allowed content_type c \<longleftrightarrow> content_type = None \<or> tc_content_type c = the content_type"

definition keyword_match :: "string \<Rightarrow> TrainingContent \<Rightarrow> bool" where
  "keyword_match query_lower c \<longleftrightarrow>
     substring_in query_lower (lower (tc_title c)) \<or>
     substring_in query_lower (lower (tc_content c)) \<or>
     (\<exists>tag \<in> set (tc_tags c). substring_in query_lower (lower tag))"

definition keyword_scan :: "string \<Rightarrow> ContentType option \<Rightarrow> object_store \<Rightarrow> KnowledgeBase
    \<Rightarrow> ref list" where
  "keyword_scan query content_type st kb =
     filter (\<lambda>r. type_allowed content_type (objs st r) \<and> keyword_match (lower query) (objs st r))
       (map snd (contents kb))"

text \<open>
  The key of the sort, \<open>(x.effectiveness_score or 0, x.usage_count)\<close>, compared as Python
  compares tuples. \<open>sorted(..., reverse=True)\<close> is stable: equal keys keep their order.
\<close>

definition effectiveness :: "TrainingContent \<Rightarrow> rat" where
  "effectiveness x = (case tc_effectiveness_score x of None \<Rightarrow> 0 | Some s \<Rightarrow> s)"

definition rank_key :: "TrainingContent \<Rightarrow> rat \<times> int" where
  "rank_key x = (effectiveness x, tc_usage_count x)"

definition sorted_reverse :: "object_store \<Rightarrow> ref list \<Rightarrow> ref list" where
  "sorted_reverse st xs = rev (sort_key (\<lambda>r. rank_key (objs st r)) (rev xs))"

text \<open>
  What a ranked list is: every item is followed only by items of a lower effectiveness, or
  of the same effectiveness and a usage count that is not higher. A list of references is
  read in a store.
\<close>

definition ranks_before :: "TrainingContent \<Rightarrow> TrainingContent \<Rightarrow> bool" where
  "ranks_before a b \<longleftrightarrow>
     effectiveness a > effectiveness b \<or>
     (effectiveness a = effectiveness b \<and> tc_usage_count a \<ge> tc_usage_count b)"

definition ranked :: "TrainingContent list \<Rightarrow> bool" where
  "ranked xs \<longleftrightarrow> sorted_wrt ranks_before xs"

definition precedes :: "'a \<Rightarrow> 'a \<Rightarrow> 'a list \<Rightarrow> bool" where
  "precedes a b xs \<longleftrightarrow> (\<exists>pre mid post. xs = pre @ a # mid @ b # post)"

definition read_list :: "object_store \<Rightarrow> ref list \<Rightarrow> TrainingContent list" where
  "read_list st rs = map (objs st) rs"

text \<open>
  \<open>search_content\<close>. The global cache is \<open>None\<close> when caching is disabled. The clock is
  read once by \<open>cache.get\<close> and once by \<open>cache.set\<close>. A hit returns the list the cache
  holds; otherwise the list is computed, sorted, stored in the cache and returned.
\<close>

definition search_content :: "int \<Rightarrow> int \<Rightarrow> ref list LRUCache option
    \<Rightarrow> vector_result list \<Rightarrow> content_table \<Rightarrow> object_store \<Rightarrow> KnowledgeBase \<Rightarrow> string
    \<Rightarrow> ContentType option
    \<Rightarrow> error + (ref list \<times> ref list LRUCache option \<times> object_store)" where
  "search_content now now' cache_opt vector_results db st kb query content_type =
     (let key = cache_key query content_type;
          looked = (case cache_opt of
                      None \<Rightarrow> (None, None)
                    | Some c \<Rightarrow> (fst (LRUCache_get now key c), Some (snd (LRUCache_get now key c))))
      in case fst looked of
           Some cached_result \<Rightarrow> Inr (cached_result, snd looked, st)
         | None \<Rightarrow>
             (case resolve db content_type vector_results of
                Inl e \<Rightarrow> Inl e
              | Inr found \<Rightarrow>
                  (let results = fst (new_objects found st);
                       st' = snd (new_objects found st);
                       results' = (if results = [] then keyword_scan query content_type st' kb
                                   else results);
                       sorted_results = sorted_reverse st' results'
                   in case snd looked of
                        None \<Rightarrow> Inr (sorted_results, None, st')
                      | Some c \<Rightarrow>
                          (case LRUCache_set now' key sorted_results c of
                             Inl e \<Rightarrow> Inl e
                           | Inr c' \<Rightarrow> Inr (sorted_results, Some c', st')))))"

text \<open>The tag index maps \<open>tag\<close> to \<open>cid\<close>; the item under \<open>cid\<close> in the mirror has \<open>tag\<close>.\<close>

definition index_maps :: "KnowledgeBase \<Rightarrow> string \<Rightarrow> string \<Rightarrow> bool" where
  "index_maps kb tag cid \<longleftrightarrow>
     (case search_index kb tag of None \<Rightarrow> False | Some ids \<Rightarrow> cid \<in> set ids)"

definition item_has_tag :: "object_store \<Rightarrow> KnowledgeBase \<Rightarrow> string \<Rightarrow> string \<Rightarrow> bool" where
  "item_has_tag st kb tag cid \<longleftrightarrow>
     (case map_of (contents kb) cid of
        None \<Rightarrow> False
      | Some r \<Rightarrow> tag \<in> set (tc_tags (objs st r)))"

definition index_consistent :: "object_store \<Rightarrow> KnowledgeBase \<Rightarrow> bool" where
  "index_consistent st kb \<longleftrightarrow>
     (\<forall>tag cid. index_maps kb tag cid \<longleftrightarrow> item_has_tag st kb tag cid)"

text \<open>A content item in the manner of the samples of \<open>init_data.py\<close>, and a store of them.\<close>

definition sample_content :: "string \<Rightarrow> string \<Rightarrow> string list \<Rightarrow> rat option \<Rightarrow> int
    \<Rightarrow> TrainingContent" where
  "sample_content cid title tags score usage =
     \<lparr>tc_id = Some cid, tc_title = title, tc_content = ''body'',
      tc_content_type = BEST_PRACTICE, tc_tags = tags, tc_created_by = ''system'',
      tc_created_at = 0, tc_usage_count = usage, tc_effectiveness_score = score\<rparr>"

definition empty_store :: object_store where
  "empty_store = \<lparr>objs = (\<lambda>r. sample_content [] [] [] None 0), next_ref = 0\<rparr>"

definition store_of :: "TrainingContent list \<Rightarrow> object_store" where
  "store_of cs = snd (new_objects cs empty_store)"

text \<open>
  Two items in the store and in the mirror, as two calls of \<open>add_content\<close> leave them, and
  the cache after a first search for \<open>sale\<close> at time 0.
\<close>

definition sample_store :: object_store where
  "sample_store = store_of [sample_content ''kb_1'' ''sales opening'' [] (Some 3) 0,
                            sample_content ''kb_2'' ''closing a sale'' [] (Some 4) 0]"

definition sample_kb :: KnowledgeBase where
  "sample_kb = \<lparr>contents = [(''kb_1'', 0), (''kb_2'', 1)], search_index = Map.empty\<rparr>"

definition sample_cache :: "ref list LRUCache" where
  "sample_cache = \<lparr>max_size = 200, ttl = 3600, cache = [(''search:sale:all'', [1, 0])],
                    timestamps = [''search:sale:all'' \<mapsto> 0]\<rparr>"

section \<open>script_generator.py: scripts, their variants and their success rate\<close>

record SalesScript =
  ss_id :: "string option"
  ss_title :: string
  ss_script :: string
  ss_scenario :: string
  ss_customer_type :: "string option"
  ss_tags :: "string list"
  ss_created_by :: string
  ss_created_at :: int
  ss_success_rate :: rat
  ss_usage_count :: int
  ss_variants :: "string list"

text \<open>A row of the table \<open>sales_scripts\<close>; the columns read with \<open>or\<close> may be null.\<close>

record SalesScriptModel =
  srow_id :: string
  srow_title :: string
  srow_script :: string
  srow_scenario :: string
  srow_customer_type :: "string option"
  srow_tags :: "string list option"
  srow_created_by :: string
  srow_created_at :: int
  srow_success_rate :: "rat option"
  srow_usage_count :: "int option"
  srow_variants :: "string list option"

type_synonym script_table = "string \<rightharpoonup> SalesScriptModel"

record ScriptGenerator =
  scripts :: "string \<rightharpoonup> SalesScript"

definition row_to_script :: "SalesScriptModel \<Rightarrow> SalesScript" where
  "row_to_script r =
     \<lparr>ss_id = Some (srow_id r), ss_title = srow_title r, ss_script = srow_script r,
      ss_scenario = srow_scenario r, ss_customer_type = srow_customer_type r,
      ss_tags = (case srow_tags r of None \<Rightarrow> [] | Some ts \<Rightarrow> ts),
      ss_created_by = srow_created_by r, ss_created_at = srow_created_at r,
      ss_success_rate = (case srow_success_rate r of None \<Rightarrow> 0 | Some x \<Rightarrow> x),
      ss_usage_count = (case srow_usage_count r of None \<Rightarrow> 0 | Some n \<Rightarrow> n),
      ss_variants = (case srow_variants r of None \<Rightarrow> [] | Some vs \<Rightarrow> vs)\<rparr>"

text \<open>\<open>get_script\<close>: the mirror first, then the table; a row found is put in the mirror.\<close>

definition get_script :: "string \<Rightarrow> script_table \<Rightarrow> ScriptGenerator
    \<Rightarrow> SalesScript option \<times> ScriptGenerator" where
  "get_script script_id db sg =
     (case scripts sg script_id of
        Some s \<Rightarrow> (Some s, sg)
      | None \<Rightarrow>
          (case db script_id of
             None \<Rightarrow> (None, sg)
           | Some r \<Rightarrow> (Some (row_to_script r),
                        sg\<lparr>scripts := (scripts sg)(script_id \<mapsto> row_to_script r)\<rparr>)))"

text \<open>
  \<open>update_success_rate\<close> returns the exception it raises, if any, the table and the
  generator. The script object is the one the mirror holds, so the increment of
  \<open>usage_count\<close> is in the mirror even when the division raises \<open>ZeroDivisionError\<close> (a
  stored count of -1). \<open>commit_ok\<close> tells whether the commit of the row succeeds; a failure
  is logged and the mirror is updated all the same.
\<close>

definition new_rate :: "rat \<Rightarrow> int \<Rightarrow> bool \<Rightarrow> rat" where
  "new_rate old_rate n success =
     (if success then (old_rate * of_int (n - 1) + 1) / of_int n
      else (old_rate * of_int (n - 1)) / of_int n)"

definition update_success_rate :: "string \<Rightarrow> bool \<Rightarrow> bool \<Rightarrow> script_table \<Rightarrow> ScriptGenerator
    \<Rightarrow> error option \<times> script_table \<times> ScriptGenerator" where
  "update_success_rate script_id success commit_ok db sg =
     (case get_script script_id db sg of
        (None, sg1) \<Rightarrow> (None, db, sg1)
      | (Some script, sg1) \<Rightarrow>
          (let n = ss_usage_count script + 1 in
           if n = 0 then
             (Some ZeroDivisionError, db,
              sg1\<lparr>scripts := (scripts sg1)(script_id \<mapsto> script\<lparr>ss_usage_count := n\<rparr>)\<rparr>)
           else
             (let script' = script\<lparr>ss_usage_count := n,
                                   ss_success_rate := new_rate (ss_success_rate script) n success\<rparr>;
                  db' = (case db script_id of
                           None \<Rightarrow> db
                         | Some r \<Rightarrow>
                             if commit_ok then
                               db(script_id \<mapsto> r\<lparr>srow_usage_count := Some (ss_usage_count script'),
                                                  srow_success_rate := Some (ss_success_rate script')\<rparr>)
                             else db)
              in (None, db', sg1\<lparr>scripts := (scripts sg1)(script_id \<mapsto> script')\<rparr>))))"



text \<open>A script as \<open>generate_script\<close> creates it: never used, with the default rate.\<close>

definition fresh_script :: "string \<Rightarrow> string \<Rightarrow> SalesScript" where
  "fresh_script script_id text =
     \<lparr>ss_id = Some script_id, ss_title = ''cold call - general'', ss_script = text,
      ss_scenario = ''cold call'', ss_customer_type = None, ss_tags = [''cold call''],
      ss_created_by = ''system'', ss_created_at = 0, ss_success_rate = 0,
      ss_usage_count = 0, ss_variants = []\<rparr>"

subsection \<open>The style variants\<close>

text \<open>
  \<open>llm_service.generate_response(system_prompt, user_message)\<close> is the text generation
  collaborator: a function that returns a text or raises. The three styles are the formal,
  the friendly and the concise one.
\<close>

type_synonym generate_response = "string \<Rightarrow> string \<Rightarrow> error + string"

definition styles :: "(string \<times> string) list" where
  "styles =
     [(''formal version'', ''use a formal, professional style''),
      (''friendly version'', ''use a friendly, warm style''),
      (''concise version'', ''use a concise, direct style'')]"

definition variant_system_prompt :: string where
  "variant_system_prompt =
     ''You are an expert in rewriting sales scripts in different styles. Answer in Traditional Chinese.''"

definition variant_prompt :: "string \<Rightarrow> string \<Rightarrow> string \<Rightarrow> string" where
  "variant_prompt style_name style_desc script =
     ''Rewrite the following sales script as the '' @ style_name @ '' ('' @ style_desc @
     ''), keeping content and structure. Original script: '' @ script @
     '' Generate the '' @ style_name @ ''. Use Traditional Chinese.''"

text \<open>The loop inside the \<open>try\<close>: the first call that raises ends it.\<close>

fun variants_loop :: "generate_response \<Rightarrow> string \<Rightarrow> (string \<times> string) list \<Rightarrow> string list
    \<Rightarrow> error + string list" where
  "variants_loop g script [] variants = Inr variants"
| "variants_loop g script ((style_name, style_desc) # rest) variants =
     (case g variant_system_prompt (variant_prompt style_name style_desc script) of
        Inl e \<Rightarrow> Inl e
      | Inr variant \<Rightarrow> variants_loop g script rest (variants @ [variant]))"

definition fallback_variants :: "string \<Rightarrow> string list" where
  "fallback_variants script =
     [''Variant 1 (formal): '' @ take 100 script @ ''...'',
      ''Variant 2 (friendly): '' @ take 100 script @ ''...'',
      ''Variant 3 (concise): '' @ take 100 script @ ''...'']"

definition generate_variants :: "generate_response \<Rightarrow> string \<Rightarrow> string list" where
  "generate_variants g script =
     take 3 (case variants_loop g script styles [] of
               Inl e \<Rightarrow> fallback_variants script
             | Inr variants \<Rightarrow> variants)"

text \<open>The answer of the collaborator for the style at a position, and whether it is a text.\<close>

definition answer :: "generate_response \<Rightarrow> string \<Rightarrow> nat \<Rightarrow> error + string" where
  "answer g script i =
     g variant_system_prompt (variant_prompt (fst (styles ! i)) (snd (styles ! i)) script)"

text \<open>A collaborator that answers the request for the formal version and fails on the others.\<close>

definition formal_only :: generate_response where
  "formal_only system_prompt user_message =
     (if substring_in ''as the formal version'' user_message then Inr ''FORMAL TEXT''
      else Inl LLMError)"

subsection \<open>llm_service.py: the text generation service of this repository\<close>

text \<open>
  \<open>generate_response\<close> of \<open>LLMService\<close>. Without a client, or when the call of the API
  raises, it answers with \<open>_fallback_response\<close>, one of four canned replies chosen by
  keywords of the message; it raises nothing itself. The API is a function from the list
  of messages, each a role and a content, to a text or an exception.
\<close>

type_synonym chat_api = "(string \<times> string) list \<Rightarrow> error + string"

definition canned_customer :: string where
  "canned_customer = ''Based on our best practice: understand the customer needs, offer a targeted solution, build trust.''"

definition canned_script :: string where
  "canned_script = ''For your situation I recommend this script: opening, value, objection handling. Shall I generate a more specific one?''"

definition canned_price :: string where
  "canned_price = ''Advice on price objections: value first, explain in stages, social proof.''"

definition canned_default :: string where
  "canned_default = ''A good question. See the knowledge base, adapt to the situation, record the result.''"

definition fallback_response :: "string \<Rightarrow> string" where
  "fallback_response message =
     (if substring_in ''customer'' message \<or> substring_in ''how to handle'' message
      then canned_customer
      else if substring_in ''sales script'' message \<or> substring_in ''how to say'' message
      then canned_script
      else if substring_in ''price'' message \<or> substring_in ''fee'' message
      then canned_price
      else canned_default)"

definition LLMService_generate_response :: "bool \<Rightarrow> chat_api \<Rightarrow> string \<Rightarrow> string
    \<Rightarrow> string option \<Rightarrow> (string \<times> string) list \<Rightarrow> string" where
  "LLMService_generate_response has_client api system_prompt user_message context history =
     (if \<not> has_client then fallback_response user_message
      else
        (let enhanced_prompt =
               (if \<not> substring_in ''Traditional Chinese'' system_prompt
                   \<and> \<not> substring_in ''Traditional'' system_prompt
                then system_prompt @ '' Important: answer in Traditional Chinese.''
                else system_prompt);
             messages =
               [(''system'', enhanced_prompt)]
               @ (case context of
                    None \<Rightarrow> []
                  | Some c \<Rightarrow> if c = [] then []
                              else [(''system'', ''Related knowledge and training content: '' @ c)])
               @ drop (length history - 5) history
               @ [(''user'', user_message)]
         in case api messages of
              Inl e \<Rightarrow> fallback_response user_message
            | Inr text \<Rightarrow> text))"

text \<open>The collaborator of \<open>_generate_variants\<close> in this repository.\<close>

definition llm_service :: "bool \<Rightarrow> chat_api \<Rightarrow> generate_response" where
  "llm_service has_client api system_prompt user_message =
     Inr (LLMService_generate_response has_client api system_prompt user_message None [])"

text \<open>An API that fails on the request for the friendly version and answers the others.\<close>

definition friendly_fails :: chat_api where
  "friendly_fails messages =
     (if substring_in ''as the friendly version'' (snd (last messages)) then Inl LLMError
      else Inr ''API TEXT'')"

section \<open>models.py: conversations and insights\<close>

text \<open>
  The dictionaries \<open>metadata\<close> and \<open>learning_insights\<close>, which no function of the core
  reads, are left out of the records.
\<close>

record ConversationMessage =
  msg_role :: string
  msg_content :: string
  msg_timestamp :: int

record Conversation =
  conv_id :: "string option"
  conv_sales_id :: string
  conv_customer_type :: "string option"
  conv_scenario :: "string option"
  conv_messages :: "ConversationMessage list"
  conv_feedback_score :: "rat option"
  conv_created_at :: int

record LearningInsight =
  li_id :: "string option"
  li_sales_id :: "string option"
  li_insight_type :: string
  li_content :: string
  li_confidence :: rat
  li_related_conversations :: "string list"
  li_created_at :: int

text \<open>\<open>sep.join(xs)\<close> and the \<open>str\<close> of an optional string inside an f-string.\<close>

fun join :: "string \<Rightarrow> string list \<Rightarrow> string" where
  "join sep [] = []"
| "join sep [x] = x"
| "join sep (x # y # ys) = x @ sep @ join sep (y # ys)"

definition str_opt :: "string option \<Rightarrow> string" where
  "str_opt s = (case s of None \<Rightarrow> ''None'' | Some x \<Rightarrow> x)"

section \<open>conversation_engine.py: the history and the context\<close>

text \<open>
  The rows of the table \<open>conversations\<close> are held as conversations, in the order of their
  insertion. \<open>self.conversation_history\<close> maps a subject to the conversations kept in memory.
\<close>

record ConversationEngine =
  conversation_history :: "string \<rightharpoonup> Conversation list"

fun str_nat :: "nat \<Rightarrow> string" where
  "str_nat n = (if n < 10 then [char_of (48 + n)] else str_nat (n div 10) @ [char_of (48 + n mod 10)])"

declare str_nat.simps [simp del]

definition history_key :: "string \<Rightarrow> nat \<Rightarrow> string" where
  "history_key sales_id limit = ''history:'' @ sales_id @ '':'' @ str_nat limit"

text \<open>
  The query of \<open>get_conversation_history\<close>: the rows of the subject, ordered by
  \<open>created_at\<close> descending, at most \<open>limit\<close> of them. The most recent conversation is first.
\<close>

definition query_history :: "Conversation list \<Rightarrow> string \<Rightarrow> nat \<Rightarrow> Conversation list" where
  "query_history table sales_id limit =
     take limit (rev (sort_key conv_created_at (filter (\<lambda>c. conv_sales_id c = sales_id) table)))"

definition get_conversation_history :: "int \<Rightarrow> int \<Rightarrow> Conversation list LRUCache option
    \<Rightarrow> Conversation list \<Rightarrow> string \<Rightarrow> nat
    \<Rightarrow> error + (Conversation list \<times> Conversation list LRUCache option)" where
  "get_conversation_history now now' cache_opt table sales_id limit =
     (let key = history_key sales_id limit;
          looked = (case cache_opt of
                      None \<Rightarrow> (None, None)
                    | Some c \<Rightarrow> (fst (LRUCache_get now key c), Some (snd (LRUCache_get now key c))))
      in case fst looked of
           Some cached_result \<Rightarrow> Inr (cached_result, snd looked)
         | None \<Rightarrow>
             (let conversations = query_history table sales_id limit
              in case snd looked of
                   None \<Rightarrow> Inr (conversations, None)
                 | Some c \<Rightarrow>
                     (case LRUCache_set now' key conversations c of
                        Inl e \<Rightarrow> Inl e
                      | Inr c' \<Rightarrow> Inr (conversations, Some c'))))"

text \<open>
  \<open>save_conversation\<close> appends to the list in memory, so that list is oldest first. The id
  is given, or a fresh one; a failed commit is logged.
\<close>

definition save_conversation :: "string \<Rightarrow> bool \<Rightarrow> string \<Rightarrow> Conversation \<Rightarrow> Conversation list
    \<Rightarrow> ConversationEngine \<Rightarrow> Conversation list \<times> ConversationEngine" where
  "save_conversation fresh_id commit_ok sales_id conversation table eng =
     (let c = (case conv_id conversation of
                 None \<Rightarrow> conversation\<lparr>conv_id := Some fresh_id\<rparr>
               | Some i \<Rightarrow> if i = [] then conversation\<lparr>conv_id := Some fresh_id\<rparr>
                           else conversation);
          table' = (if commit_ok then table @ [c] else table);
          old = (case conversation_history eng sales_id of None \<Rightarrow> [] | Some l \<Rightarrow> l)
      in (table', eng\<lparr>conversation_history := (conversation_history eng)(sales_id \<mapsto> old @ [c])\<rparr>))"

text \<open>
  \<open>_build_context\<close>: the first three items, then one line on the scenario of
  \<open>history[-1]\<close>, the last element of the history.
\<close>

definition build_context :: "TrainingContent list \<Rightarrow> Conversation list \<Rightarrow> string" where
  "build_context content history =
     join [CHR 0x0A, CHR 0x0A]
       (map (\<lambda>item. ''Training content: '' @ tc_title item @ [CHR 0x0A] @
                     take 200 (tc_content item) @ ''...'') (take 3 content)
        @ (if history \<noteq> [] then [''Recent conversation scenario: '' @
                                     str_opt (conv_scenario (last history))]
           else []))"

text \<open>
  Steps 2 and 3 of \<open>chat\<close>: the history of the subject is the list in memory or, when that
  is empty, the ten most recent rows of the table, which are then kept in memory; the
  context is built from the search results and that history.
\<close>

definition chat_context :: "int \<Rightarrow> int \<Rightarrow> Conversation list LRUCache option \<Rightarrow> Conversation list
    \<Rightarrow> TrainingContent list \<Rightarrow> string \<Rightarrow> ConversationEngine
    \<Rightarrow> error + (string \<times> Conversation list \<times> ConversationEngine)" where
  "chat_context now now' cache_opt table relevant_content user_id eng =
     (case conversation_history eng user_id of
        Some (c # cs) \<Rightarrow> Inr (build_context relevant_content (c # cs), c # cs, eng)
      | _ \<Rightarrow>
          (case get_conversation_history now now' cache_opt table user_id 10 of
             Inl e \<Rightarrow> Inl e
           | Inr (user_history, cache') \<Rightarrow>
               Inr (build_context relevant_content user_history, user_history,
                    if user_history \<noteq> []
                    then eng\<lparr>conversation_history :=
                              (conversation_history eng)(user_id \<mapsto> user_history)\<rparr>
                    else eng)))"

text \<open>Two conversations of one subject, in the manner of the rows \<open>chat\<close> saves.\<close>

definition sample_conversation :: "string \<Rightarrow> string \<Rightarrow> int \<Rightarrow> rat option \<Rightarrow> Conversation" where
  "sample_conversation cid scenario created score =
     \<lparr>conv_id = Some cid, conv_sales_id = ''u1'', conv_customer_type = None,
      conv_scenario = Some scenario, conv_messages = [], conv_feedback_score = score,
      conv_created_at = created\<rparr>"

section \<open>learning_system.py: insights from a conversation\<close>

record LearningSystem =
  insights :: "string \<rightharpoonup> LearningInsight list"

text \<open>
  The feedback rule. \<open>if conversation.feedback_score:\<close> is false for an absent score and
  for the score 0. \<open>float_str\<close> is Python's formatting of a float.
\<close>

definition related :: "Conversation \<Rightarrow> string list" where
  "related conversation =
     (case conv_id conversation of None \<Rightarrow> [] | Some i \<Rightarrow> if i = [] then [] else [i])"

definition feedback_insights :: "(rat \<Rightarrow> string) \<Rightarrow> int \<Rightarrow> Conversation \<Rightarrow> LearningInsight list" where
  "feedback_insights float_str now conversation =
     (case conv_feedback_score conversation of
        None \<Rightarrow> []
      | Some score \<Rightarrow>
          if score = 0 then []
          else if score \<ge> 9 / 2 then
            [\<lparr>li_id = None, li_sales_id = None, li_insight_type = ''strength'',
              li_content = ''This conversation was excellent ('' @ float_str score @
                           '' points), record it as a best practice'',
              li_confidence = 9 / 10, li_related_conversations = related conversation,
              li_created_at = now\<rparr>]
          else if score \<le> 5 / 2 then
            [\<lparr>li_id = None, li_sales_id = None, li_insight_type = ''improvement'',
              li_content = ''This conversation needs improvement ('' @ float_str score @
                           '' points), strengthen the related training'',
              li_confidence = 85 / 100, li_related_conversations = related conversation,
              li_created_at = now\<rparr>]
          else [])"

text \<open>
  \<open>_identify_common_issues\<close>. The number of distinct questions is compared with 0.7 times
  the number of questions; on these integers the comparison in doubles and the exact one
  agree.
\<close>

definition problem_keywords :: "(string \<times> string list) list" where
  "problem_keywords =
     [(''price objection'', [''expensive'', ''price'', ''fee'', ''cost'', ''budget'']),
      (''feature doubt'', [''can'', ''could'', ''feature'', ''capability'', ''support'']),
      (''trust concern'', [''really'', ''sure'', ''guarantee'', ''reliable'', ''trust''])]"

definition identify_common_issues :: "Conversation \<Rightarrow> string list" where
  "identify_common_issues conversation =
     (if conv_messages conversation = [] then []
      else
        (let user_messages = filter (\<lambda>m. msg_role m = ''user'') (conv_messages conversation);
             assistant_messages =
               filter (\<lambda>m. msg_role m = ''assistant'') (conv_messages conversation);
             questions = map (\<lambda>m. lower (msg_content m))
                           (filter (\<lambda>m. CHR ''?'' \<in> set (msg_content m)) user_messages);
             all_user_text = join '' '' (map (\<lambda>m. lower (msg_content m)) user_messages);
             detected_problems =
               map fst (filter (\<lambda>(problem_type, keywords).
                                  \<exists>keyword \<in> set keywords. substring_in keyword all_user_text)
                               problem_keywords)
         in (if length user_messages > 10
             then [''The conversation is too long, the need may not have been met in time'']
             else [])
          @ (if length questions > 2
                \<and> (of_nat (length (remdups questions)) :: rat)
                    < of_nat (length questions) * (7 / 10)
             then [''Repeated questions found, improve the script'']
             else [])
          @ (if length user_messages > 1 \<and> length assistant_messages > 0
             then [''Watch the response speed, answer the customer in time'']
             else [])
          @ (if detected_problems \<noteq> []
             then [''Common problem types detected: '' @ join '', '' detected_problems @
                   '', targeted training is advised'']
             else [])))"

definition pattern_insight :: "int \<Rightarrow> string \<Rightarrow> LearningInsight" where
  "pattern_insight now issue =
     \<lparr>li_id = None, li_sales_id = None, li_insight_type = ''pattern'', li_content = issue,
      li_confidence = 75 / 100, li_related_conversations = [], li_created_at = now\<rparr>"

text \<open>
  \<open>analyze_conversation\<close>. When the subject id is not empty each insight gets an id
  (\<open>new_id\<close>, from \<open>uuid4\<close>), the rows are committed (a failure is logged) and the insights
  are appended to the list of the subject in memory. One reading of the clock stands for
  the readings of the call.
\<close>

fun assign_ids :: "(nat \<Rightarrow> string) \<Rightarrow> nat \<Rightarrow> LearningInsight list \<Rightarrow> LearningInsight list" where
  "assign_ids new_id k [] = []"
| "assign_ids new_id k (i # rest) = i\<lparr>li_id := Some (new_id k)\<rparr> # assign_ids new_id (Suc k) rest"

definition analyze_conversation :: "(rat \<Rightarrow> string) \<Rightarrow> (nat \<Rightarrow> string) \<Rightarrow> bool \<Rightarrow> int
    \<Rightarrow> Conversation \<Rightarrow> LearningInsight list \<Rightarrow> LearningSystem
    \<Rightarrow> LearningInsight list \<times> LearningInsight list \<times> LearningSystem" where
  "analyze_conversation float_str new_id commit_ok now conversation table ls =
     (let found = feedback_insights float_str now conversation
                  @ map (pattern_insight now) (identify_common_issues conversation)
      in if conv_sales_id conversation = [] then (found, table, ls)
         else
           (let saved = assign_ids new_id 0 found;
                table' = (if commit_ok
                          then table @ map (\<lambda>i. i\<lparr>li_sales_id :=
                                                     Some (conv_sales_id conversation)\<rparr>) saved
                          else table);
                old = (case insights ls (conv_sales_id conversation) of
                         None \<Rightarrow> [] | Some l \<Rightarrow> l)
            in (saved, table',
                ls\<lparr>insights := (insights ls)(conv_sales_id conversation \<mapsto> old @ saved)\<rparr>)))"

text \<open>The kind and the confidence of each insight that is not a pattern insight.\<close>

definition feedback_kinds :: "LearningInsight list \<Rightarrow> (string \<times> rat) list" where
  "feedback_kinds found =
     map (\<lambda>i. (li_insight_type i, li_confidence i))
       (filter (\<lambda>i. li_insight_type i \<noteq> ''pattern'') found)"

section \<open>Properties of the cache\<close>
















lemma step_max_size: "step x c = Inr c' \<Longrightarrow> max_size c' = max_size c"
  by (cases x)
    (auto simp: LRUCache_get_def LRUCache_set_def LRUCache_delete_def LRUCache_clear_def
      store_def split: option.splits if_splits list.splits)

lemma run_max_size: "run n lt c ops = Inr (c', lt') \<Longrightarrow> max_size c' = max_size c"
proof (induction ops arbitrary: n lt c)
  case Nil
  then show ?case by simp
next
  case (Cons x xs)
  then show ?case by (auto split: sum.splits dest: step_max_size)
qed












section \<open>Properties of the knowledge base search\<close>






lemma ranks_before_key: "ranks_before a b \<longleftrightarrow> rank_key b \<le> rank_key a"
  by (auto simp: ranks_before_def rank_key_def)

lemma ranked_sorted_reverse: "ranked (read_list st (sorted_reverse st xs))"
proof -
  let ?k = "\<lambda>r. rank_key (objs st r)"
  have "sorted (map ?k (sort_key ?k (rev xs)))" by simp
  then have "sorted_wrt (\<lambda>a b. ?k a \<le> ?k b) (sort_key ?k (rev xs))"
    by (simp add: sorted_map)
  then have "sorted_wrt (\<lambda>a b. ?k b \<le> ?k a) (rev (sort_key ?k (rev xs)))"
    by (simp add: sorted_wrt_rev)
  then show ?thesis
    by (simp add: ranked_def read_list_def sorted_reverse_def sorted_wrt_map
        ranks_before_key[abs_def])
qed

lemma two_positions:
  assumes "x \<in> set xs" and "y \<in> set xs" and "x \<noteq> y"
  shows "precedes x y xs \<or> precedes y x xs"
proof -
  from assms(1) obtain pre post where s: "xs = pre @ x # post" by (auto dest: split_list)
  from assms(2,3) s have "y \<in> set pre \<or> y \<in> set post" by auto
  then show ?thesis
  proof
    assume "y \<in> set pre"
    then obtain p1 p2 where "pre = p1 @ y # p2" by (auto dest: split_list)
    then have "xs = p1 @ y # p2 @ x # post" using s by simp
    then show ?thesis unfolding precedes_def by blast
  next
    assume "y \<in> set post"
    then obtain p1 p2 where "post = p1 @ y # p2" by (auto dest: split_list)
    then have "xs = pre @ x # p1 @ y # p2" using s by simp
    then show ?thesis unfolding precedes_def by blast
  qed
qed

lemma ranked_precedes:
  assumes "ranked xs" and "precedes b a xs"
  shows "ranks_before b a"
  using assms unfolding ranked_def precedes_def
  by (auto simp: sorted_wrt_append)

lemma ranks_before_refl: "ranks_before a a"
  by (simp add: ranks_before_def)

lemma better_precedes:
  assumes "ranked xs" and "a \<in> set xs" and "b \<in> set xs" and "\<not> ranks_before b a"
  shows "precedes a b xs"
proof -
  have "a \<noteq> b" using assms(4) ranks_before_refl by auto
  from two_positions[OF assms(2,3) this] show ?thesis
    using ranked_precedes[OF assms(1)] assms(4) by blast
qed



lemma set_delete_subset: "set (AList.delete k al) \<subseteq> set al"
  by (auto simp: AList.delete_eq)

lemma set_update_subset: "set (AList.update k v al) \<subseteq> insert (k, v) (set al)"
  by (induction al) auto

lemma set_move_to_end_subset: "set (move_to_end k al) \<subseteq> set al"
  using set_delete_subset[of k al]
  by (auto simp: move_to_end_def split: option.splits dest: map_of_SomeD)

lemma values_get: "set (cache (snd (LRUCache_get now k c))) \<subseteq> set (cache c)"
  using set_delete_subset[of k "cache c"] set_move_to_end_subset[of k "cache c"]
  by (auto simp: LRUCache_get_def LRUCache_delete_def split: option.splits)

lemma hit_value: "fst (LRUCache_get now k c) = Some v \<Longrightarrow> (k, v) \<in> set (cache c)"
  by (auto simp: LRUCache_get_def split: option.splits if_splits dest: map_of_SomeD)

lemma update_subset_mono:
  "set al' \<subseteq> set al \<Longrightarrow> set (AList.update k v al') \<subseteq> insert (k, v) (set al)"
  using set_update_subset[of k v al'] by blast

lemma values_set:
  assumes "LRUCache_set now k v c = Inr c'"
  shows "set (cache c') \<subseteq> insert (k, v) (set (cache c))"
proof -
  have "\<exists>al'. set al' \<subseteq> set (cache c) \<and> cache c' = AList.update k v al'"
  proof (cases "k \<in> set (keys c)")
    case True
    then have "cache c' = AList.update k v (move_to_end k (cache c))"
      using assms by (auto simp: LRUCache_set_def store_def)
    then show ?thesis
      by (intro exI[of _ "move_to_end k (cache c)"] conjI set_move_to_end_subset)
  next
    case False
    show ?thesis
    proof (cases "int (length (cache c)) \<ge> max_size c")
      case True
      then obtain o_k o_v rest where "cache c = (o_k, o_v) # rest"
        using assms False by (auto simp: LRUCache_set_def split: list.splits)
      then have "cache c' = AList.update k v (AList.delete o_k (cache c))"
        using assms False True by (auto simp: LRUCache_set_def store_def LRUCache_delete_def)
      then show ?thesis
        by (intro exI[of _ "AList.delete o_k (cache c)"] conjI set_delete_subset)
    next
      case small: False
      then have "cache c' = AList.update k v (cache c)"
        using assms False by (auto simp: LRUCache_set_def store_def)
      then show ?thesis by (intro exI[of _ "cache c"] conjI subset_refl)
    qed
  qed
  then obtain al' where a: "set al' \<subseteq> set (cache c)" "cache c' = AList.update k v al'"
    by blast
  show ?thesis unfolding a(2) by (rule update_subset_mono[OF a(1)])
qed


lemma search_computed:
  assumes miss: "cache_opt = None \<or>
        (\<exists>c. cache_opt = Some c \<and>
             fst (LRUCache_get now (cache_key query content_type) c) = None)"
    and s: "search_content now now' cache_opt vector_results db st kb query content_type
              = Inr (res, cache', st')"
  shows "\<exists>xs. res = sorted_reverse st' xs"
proof (cases cache_opt)
  case None
  then show ?thesis using s
    by (auto simp: search_content_def Let_def split: sum.splits)
next
  case (Some c)
  then have "fst (LRUCache_get now (cache_key query content_type) c) = None"
    using miss by auto
  then show ?thesis using s Some
    by (auto simp: search_content_def Let_def split: sum.splits)
qed

lemma search_hit:
  assumes "cache_opt = Some c"
    and "fst (LRUCache_get now (cache_key query content_type) c) = Some v"
  shows "search_content now now' cache_opt vector_results db st kb query content_type
     = Inr (v, Some (snd (LRUCache_get now (cache_key query content_type) c)), st)"
  using assms by (simp add: search_content_def Let_def)


lemma store_of_one: "objs (store_of [a]) 0 = a"
  by (simp add: store_of_def new_object_def empty_store_def)

lemma store_of_two: "objs (store_of [a, b]) 0 = a" "objs (store_of [a, b]) (Suc 0) = b"
  by (simp_all add: store_of_def new_object_def empty_store_def)


text \<open>
  Claim C5, as amended. A list that \<open>search_content\<close> computes, on a miss of the cache or
  with the cache disabled, is ranked when it is returned: an item is followed only by items
  of a lower effectiveness score, or of the same score and a usage count that is not
  higher, an absent score counting as 0, the bottom of the range of scores. So among these
  results an item that is strictly better comes first: an item with a positive score before
  one without a score, (4, 20) before (4, 10), and a score of 5 before a score of 3
  whatever the usage counts. On a hit the list held by the cache is returned as it is.
\<close>

theorem search_results_ranked:
  "((cache_opt = None \<or>
       (\<exists>c. cache_opt = Some c \<and>
            fst (LRUCache_get now (cache_key query content_type) c) = None)) \<and>
    search_content now now' cache_opt vector_results db st kb query content_type
      = Inr (res, cache', st')
    \<longrightarrow> ranked (read_list st' res) \<and>
     (\<forall>a \<in> set (read_list st' res). \<forall>b \<in> set (read_list st' res).
        \<not> ranks_before b a \<longrightarrow> precedes a b (read_list st' res)) \<and>
     (\<forall>a \<in> set (read_list st' res). \<forall>b \<in> set (read_list st' res).
        tc_effectiveness_score a = None \<and> (\<exists>s > 0. tc_effectiveness_score b = Some s)
        \<longrightarrow> precedes b a (read_list st' res)) \<and>
     (\<forall>a \<in> set (read_list st' res). \<forall>b \<in> set (read_list st' res).
        tc_effectiveness_score a = Some 4 \<and> tc_usage_count a = 10 \<and>
        tc_effectiveness_score b = Some 4 \<and> tc_usage_count b = 20
        \<longrightarrow> precedes b a (read_list st' res)) \<and>
     (\<forall>a \<in> set (read_list st' res). \<forall>b \<in> set (read_list st' res).
        tc_effectiveness_score a = Some 5 \<and> tc_effectiveness_score b = Some 3
        \<longrightarrow> precedes a b (read_list st' res))) \<and>
   (cache_opt = Some c \<and> fst (LRUCache_get now (cache_key query content_type) c) = Some v
    \<longrightarrow> search_content now now' cache_opt vector_results db st kb query content_type
      = Inr (v, Some (snd (LRUCache_get now (cache_key query content_type) c)), st))"
proof (intro conjI impI)
  assume h: "(cache_opt = None \<or>
       (\<exists>c. cache_opt = Some c \<and>
            fst (LRUCache_get now (cache_key query content_type) c) = None)) \<and>
    search_content now now' cache_opt vector_results db st kb query content_type
      = Inr (res, cache', st')"
  let ?vs = "read_list st' res"
  from search_computed[of cache_opt now query content_type now' vector_results db st kb
      res cache' st'] h
  obtain xs where "res = sorted_reverse st' xs" by blast
  then have r: "ranked ?vs" by (simp add: ranked_sorted_reverse)
  have 1: "\<forall>a \<in> set ?vs. \<forall>b \<in> set ?vs. \<not> ranks_before b a \<longrightarrow> precedes a b ?vs"
    using better_precedes[OF r] by blast
  have 2: "\<forall>a \<in> set ?vs. \<forall>b \<in> set ?vs.
        tc_effectiveness_score a = None \<and> (\<exists>s > 0. tc_effectiveness_score b = Some s)
        \<longrightarrow> precedes b a ?vs"
  proof (intro ballI impI)
    fix a b assume ab: "a \<in> set ?vs" "b \<in> set ?vs"
      and "tc_effectiveness_score a = None \<and> (\<exists>s > 0. tc_effectiveness_score b = Some s)"
    then have "\<not> ranks_before a b" by (auto simp: ranks_before_def effectiveness_def)
    then show "precedes b a ?vs" using better_precedes[OF r ab(2) ab(1)] by blast
  qed
  have 3: "\<forall>a \<in> set ?vs. \<forall>b \<in> set ?vs.
        tc_effectiveness_score a = Some 4 \<and> tc_usage_count a = 10 \<and>
        tc_effectiveness_score b = Some 4 \<and> tc_usage_count b = 20
        \<longrightarrow> precedes b a ?vs"
  proof (intro ballI impI)
    fix a b assume ab: "a \<in> set ?vs" "b \<in> set ?vs"
      and "tc_effectiveness_score a = Some 4 \<and> tc_usage_count a = 10 \<and>
        tc_effectiveness_score b = Some 4 \<and> tc_usage_count b = 20"
    then have "\<not> ranks_before a b" by (auto simp: ranks_before_def effectiveness_def)
    then show "precedes b a ?vs" using better_precedes[OF r ab(2) ab(1)] by blast
  qed
  have 4: "\<forall>a \<in> set ?vs. \<forall>b \<in> set ?vs.
        tc_effectiveness_score a = Some 5 \<and> tc_effectiveness_score b = Some 3
        \<longrightarrow> precedes a b ?vs"
  proof (intro ballI impI)
    fix a b assume ab: "a \<in> set ?vs" "b \<in> set ?vs"
      and "tc_effectiveness_score a = Some 5 \<and> tc_effectiveness_score b = Some 3"
    then have "\<not> ranks_before b a" by (auto simp: ranks_before_def effectiveness_def)
    then show "precedes a b ?vs" using better_precedes[OF r ab] by blast
  qed
  show "ranked ?vs" by (rule r)
  show "\<forall>a \<in> set ?vs. \<forall>b \<in> set ?vs. \<not> ranks_before b a \<longrightarrow> precedes a b ?vs" by (rule 1)
  show "\<forall>a \<in> set ?vs. \<forall>b \<in> set ?vs.
        tc_effectiveness_score a = None \<and> (\<exists>s > 0. tc_effectiveness_score b = Some s)
        \<longrightarrow> precedes b a ?vs" by (rule 2)
  show "\<forall>a \<in> set ?vs. \<forall>b \<in> set ?vs.
        tc_effectiveness_score a = Some 4 \<and> tc_usage_count a = 10 \<and>
        tc_effectiveness_score b = Some 4 \<and> tc_usage_count b = 20
        \<longrightarrow> precedes b a ?vs" by (rule 3)
  show "\<forall>a \<in> set ?vs. \<forall>b \<in> set ?vs.
        tc_effectiveness_score a = Some 5 \<and> tc_effectiveness_score b = Some 3
        \<longrightarrow> precedes a b ?vs" by (rule 4)
next
  assume "cache_opt = Some c \<and>
    fst (LRUCache_get now (cache_key query content_type) c) = Some v"
  then show "search_content now now' cache_opt vector_results db st kb query content_type
      = Inr (v, Some (snd (LRUCache_get now (cache_key query content_type) c)), st)"
    using search_hit by blast
qed

lemma sample_objects:
  "objs sample_store 0 = sample_content ''kb_1'' ''sales opening'' [] (Some 3) 0"
  "objs sample_store (Suc 0) = sample_content ''kb_2'' ''closing a sale'' [] (Some 4) 0"
  by (simp_all add: sample_store_def store_of_two)

lemma sample_scan:
  "sorted_reverse sample_store (keyword_scan ''sale'' None sample_store sample_kb) = [1, 0]"
  by code_simp

lemma sample_first_search:
  "search_content 0 0 (Some (LRUCache_init 200 3600)) [] Map.empty sample_store sample_kb
     ''sale'' None = Inr ([1, 0], Some sample_cache, sample_store)"
  by (simp add: search_content_def cache_key_def LRUCache_get_def LRUCache_set_def
      LRUCache_init_def store_def keys_def sample_scan sample_cache_def Let_def)

lemma sample_hit:
  "LRUCache_get 1 (cache_key ''sale'' None) sample_cache = (Some [1, 0], sample_cache)"
  by (simp add: cache_key_def LRUCache_get_def sample_cache_def expired_def move_to_end_def)

lemma sample_updated:
  "read_list (update_effectiveness ''kb_1'' 5 sample_store sample_kb) [1, 0]
   = [sample_content ''kb_2'' ''closing a sale'' [] (Some 4) 0,
      sample_content ''kb_1'' ''sales opening'' [] (Some 5) 1]"
  by (simp add: read_list_def update_effectiveness_def sample_kb_def sample_objects
      sample_content_def)

text \<open>
  The claim as stated fails on a hit of the cache. A first search for \<open>sale\<close> computes the
  ranked list of the two items, \<open>kb_2\<close> (score 4) before \<open>kb_1\<close> (score 3), and the cache
  keeps it. \<open>update_effectiveness\<close> then sets the score of \<open>kb_1\<close> to 5. The same search, one
  microsecond later, is answered from the cache with the same list, in which the item of
  score 4 now comes before the item of score 5.
\<close>

theorem search_hit_not_ranked_counterexample:
  "search_content 0 0 (Some (LRUCache_init 200 3600)) [] Map.empty sample_store sample_kb
     ''sale'' None = Inr ([1, 0], Some sample_cache, sample_store) \<and>
   search_content 1 1 (Some sample_cache) [] Map.empty
     (update_effectiveness ''kb_1'' 5 sample_store sample_kb) sample_kb ''sale'' None
   = Inr ([1, 0], Some sample_cache, update_effectiveness ''kb_1'' 5 sample_store sample_kb) \<and>
   read_list (update_effectiveness ''kb_1'' 5 sample_store sample_kb) [1, 0]
   = [sample_content ''kb_2'' ''closing a sale'' [] (Some 4) 0,
      sample_content ''kb_1'' ''sales opening'' [] (Some 5) 1] \<and>
   \<not> ranked (read_list (update_effectiveness ''kb_1'' 5 sample_store sample_kb) [1, 0])"
proof -
  let ?st = "update_effectiveness ''kb_1'' 5 sample_store sample_kb"
  have s2: "search_content 1 1 (Some sample_cache) [] Map.empty ?st sample_kb ''sale'' None
      = Inr ([1, 0], Some sample_cache, ?st)"
    by (simp add: search_content_def sample_hit)
  have n: "\<not> ranked (read_list ?st [1, 0])"
    unfolding sample_updated
    by (simp add: ranked_def ranks_before_def effectiveness_def sample_content_def)
  show ?thesis by (intro conjI sample_first_search s2 sample_updated n)
qed

theorem search_results_ranked_witness:
  "search_content 0 0 (Some (LRUCache_init 200 3600)) [] Map.empty sample_store sample_kb
     ''sale'' None = Inr ([1, 0], Some sample_cache, sample_store) \<and>
   fst (LRUCache_get 0 (cache_key ''sale'' None) (LRUCache_init 200 3600 :: ref list LRUCache))
     = None \<and>
   ranked (read_list sample_store [1, 0]) \<and>
   fst (LRUCache_get 1 (cache_key ''sale'' None) sample_cache) = Some [1, 0] \<and>
   search_content 1 1 (Some sample_cache) [] Map.empty sample_store sample_kb ''sale'' None
   = Inr ([1, 0], Some (snd (LRUCache_get 1 (cache_key ''sale'' None) sample_cache)),
          sample_store)"
proof -
  let ?c = "LRUCache_init 200 3600 :: ref list LRUCache"
  have m: "fst (LRUCache_get 0 (cache_key ''sale'' None) ?c) = None"
    by (simp add: LRUCache_get_def LRUCache_init_def)
  have h1: "(Some ?c = None \<or>
       (\<exists>c. Some ?c = Some c \<and> fst (LRUCache_get 0 (cache_key ''sale'' None) c) = None)) \<and>
    search_content 0 0 (Some ?c) [] Map.empty sample_store sample_kb ''sale'' None
      = Inr ([1, 0], Some sample_cache, sample_store)"
    using m sample_first_search by simp
  note a = mp[OF conjunct1[OF search_results_ranked[of "Some ?c" 0 "''sale''" None 0 "[]"
          Map.empty sample_store sample_kb "[1, 0]" "Some sample_cache" sample_store]] h1]
  have h2: "Some sample_cache = Some sample_cache \<and>
      fst (LRUCache_get 1 (cache_key ''sale'' None) sample_cache) = Some [1, 0]"
    by (simp add: sample_hit)
  note b = mp[OF conjunct2[OF search_results_ranked[of "Some sample_cache" 1 "''sale''" None
          _ _ _ _ _ _ _ _ sample_cache "[1, 0]"]] h2]
  show ?thesis
    by (intro conjI sample_first_search m conjunct1[OF a] conjunct2[OF h2] b)
qed

section \<open>The tag index and the mirror\<close>

lemma index_tags_maps:
  "(case index_tags dedup cid tags idx tag of None \<Rightarrow> False | Some ids \<Rightarrow> i \<in> set ids)
   \<longleftrightarrow> (case idx tag of None \<Rightarrow> False | Some ids \<Rightarrow> i \<in> set ids)
        \<or> (i = cid \<and> tag \<in> set tags)"
proof (induction tags arbitrary: idx)
  case Nil
  then show ?case by simp
next
  case (Cons t ts)
  show ?case
    by (simp add: Cons.IH Let_def) (auto split: option.splits)
qed

lemma map_of_update: "map_of (AList.update k v al) = (map_of al)(k \<mapsto> v)"
  by (rule update_conv')

lemma add_content_fresh_consistent:
  assumes "index_consistent st kb"
    and "add_content fresh_id content db st kb = (cid, db', st', kb')"
    and "map_of (contents kb) cid = None"
  shows "index_consistent st' kb'"
proof -
  let ?c = "(objs st content)\<lparr>tc_id := Some cid\<rparr>"
  have kb': "kb' = \<lparr>contents = AList.update cid content (contents kb),
       search_index = index_tags False cid (tc_tags ?c) (search_index kb)\<rparr>"
    and st': "st' = st\<lparr>objs := (objs st)(content := ?c)\<rparr>"
    using assms(2) by (auto simp: add_content_def Let_def)
  have tags: "\<And>r. tc_tags (objs st' r) = tc_tags (objs st r)"
    unfolding st' by simp
  have old: "\<And>tag. \<not> index_maps kb tag cid"
    using assms(1,3) by (simp add: index_consistent_def item_has_tag_def)
  show ?thesis
    unfolding index_consistent_def
  proof (intro allI)
    fix tag i
    have a: "index_maps kb' tag i \<longleftrightarrow>
        index_maps kb tag i \<or> (i = cid \<and> tag \<in> set (tc_tags (objs st content)))"
      unfolding kb' index_maps_def by (simp add: index_tags_maps)
    have b: "item_has_tag st' kb' tag i \<longleftrightarrow>
        (if i = cid then tag \<in> set (tc_tags (objs st content)) else item_has_tag st kb tag i)"
      unfolding kb' item_has_tag_def by (auto simp: map_of_update tags split: option.splits)
    show "index_maps kb' tag i \<longleftrightarrow> item_has_tag st' kb' tag i"
      using a b old assms(1) by (auto simp: index_consistent_def)
  qed
qed

lemma update_effectiveness_consistent:
  assumes "index_consistent st kb"
  shows "index_consistent (update_effectiveness cid score st kb) kb"
proof -
  have "\<And>r. tc_tags (objs (update_effectiveness cid score st kb) r) = tc_tags (objs st r)"
    by (simp add: update_effectiveness_def split: option.splits)
  then have "\<And>tag i. item_has_tag (update_effectiveness cid score st kb) kb tag i
      = item_has_tag st kb tag i"
    by (auto simp: item_has_tag_def split: option.splits)
  then show ?thesis using assms by (simp add: index_consistent_def)
qed

lemma empty_consistent: "index_consistent st KnowledgeBase_empty"
  by (simp add: index_consistent_def index_maps_def item_has_tag_def KnowledgeBase_empty_def)

lemma sample_row:
  "row_to_content True
     (content_row ''kb_9'' (sample_content ''kb_9'' ''Pricing guide'' [''pricing''] None 0))
   = Inr (sample_content ''kb_9'' ''Pricing guide'' [''pricing''] None 0)"
  by code_simp

text \<open>
  Claim C9 fails on the code. From the empty, consistent mirror, \<open>get_content\<close> of an id that
  only the table holds (a row written as \<open>add_content\<close> writes it, by another process or
  before a failed load) puts the item in the mirror and leaves the tag index as it was: the
  item has the tag \<open>pricing\<close> and the index does not map \<open>pricing\<close> to its id.
\<close>

theorem get_content_leaves_index_stale:
  "index_consistent empty_store KnowledgeBase_empty \<and>
   get_content ''kb_9''
     [''kb_9'' \<mapsto>
        content_row ''kb_9'' (sample_content ''kb_9'' ''Pricing guide'' [''pricing''] None 0)]
     empty_store KnowledgeBase_empty
   = Inr (Some 0,
          store_of [sample_content ''kb_9'' ''Pricing guide'' [''pricing''] None 0],
          \<lparr>contents = [(''kb_9'', 0)], search_index = Map.empty\<rparr>) \<and>
   item_has_tag (store_of [sample_content ''kb_9'' ''Pricing guide'' [''pricing''] None 0])
     \<lparr>contents = [(''kb_9'', 0)], search_index = Map.empty\<rparr> ''pricing'' ''kb_9'' \<and>
   \<not> index_maps \<lparr>contents = [(''kb_9'', 0)], search_index = Map.empty\<rparr> ''pricing'' ''kb_9'' \<and>
   \<not> index_consistent (store_of [sample_content ''kb_9'' ''Pricing guide'' [''pricing''] None 0])
       \<lparr>contents = [(''kb_9'', 0)], search_index = Map.empty\<rparr>"
proof -
  let ?item = "sample_content ''kb_9'' ''Pricing guide'' [''pricing''] None 0"
  let ?kb = "\<lparr>contents = [(''kb_9'', 0)], search_index = Map.empty\<rparr>"
  have g: "get_content ''kb_9'' [''kb_9'' \<mapsto> content_row ''kb_9'' ?item] empty_store
      KnowledgeBase_empty = Inr (Some 0, store_of [?item], ?kb)"
    by (simp add: get_content_def KnowledgeBase_empty_def sample_row store_of_def
        new_object_def empty_store_def)
  have t: "item_has_tag (store_of [?item]) ?kb ''pricing'' ''kb_9''"
    by (simp add: item_has_tag_def store_of_one) (simp add: sample_content_def)
  have n: "\<not> index_maps ?kb ''pricing'' ''kb_9''"
    by (simp add: index_maps_def)
  have "\<not> index_consistent (store_of [?item]) ?kb"
    unfolding index_consistent_def using t n by blast
  then show ?thesis using empty_consistent g t n by blast
qed

text \<open>The loader, for comparison, indexes the tags of the row it loads.\<close>

lemma load_from_database_indexes:
  "index_maps
     (snd (load_from_database
        [content_row ''kb_9'' (sample_content ''kb_9'' ''Pricing guide'' [''pricing''] None 0)]
        empty_store KnowledgeBase_empty)) ''pricing'' ''kb_9''"
proof -
  have t: "tc_tags (sample_content ''kb_9'' ''Pricing guide'' [''pricing''] None 0) = [''pricing'']"
    by (simp add: sample_content_def)
  have r: "row_id (content_row ''kb_9''
      (sample_content ''kb_9'' ''Pricing guide'' [''pricing''] None 0)) = ''kb_9''"
    by (simp add: content_row_def)
  show ?thesis
    by (simp add: sample_row KnowledgeBase_empty_def index_maps_def t r)
qed

text \<open>
  The same happens when \<open>add_content\<close> is given an object with the id of an item of the
  mirror and other tags: the old tags stay in the index.
\<close>

lemma add_content_again_leaves_index_stale:
  "\<exists>cid db' st' kb'.
     add_content ''kb_new'' 1 Map.empty
       (store_of [sample_content ''kb_9'' ''Pricing guide'' [''pricing''] None 0,
                  sample_content ''kb_9'' ''Pricing guide'' [''discount''] None 0])
       \<lparr>contents = [(''kb_9'', 0)], search_index = [''pricing'' \<mapsto> [''kb_9'']]\<rparr>
     = (cid, db', st', kb') \<and>
     index_maps kb' ''pricing'' ''kb_9'' \<and> \<not> item_has_tag st' kb' ''pricing'' ''kb_9''"
  by (simp add: add_content_def Let_def store_of_two index_maps_def item_has_tag_def)
     (simp add: sample_content_def)

text \<open>The sample mirror is what two calls of \<open>add_content\<close> make of the two objects.\<close>

lemma sample_built:
  "add_content ''kb_x'' 0 Map.empty sample_store KnowledgeBase_empty
     = (''kb_1'', db1, st1, kb1) \<Longrightarrow>
   add_content ''kb_y'' 1 db1 st1 kb1 = (''kb_2'', db2, st2, kb2) \<Longrightarrow>
   kb2 = sample_kb \<and> read_list st2 [0, 1] = read_list sample_store [0, 1]"
  by (auto simp: add_content_def Let_def sample_objects KnowledgeBase_empty_def sample_kb_def
      read_list_def sample_content_def)

section \<open>Properties of the script generator\<close>

lemma get_script_mirror:
  "fst (get_script sid db sg) = Some s \<Longrightarrow> scripts (snd (get_script sid db sg)) sid = Some s"
  by (auto simp: get_script_def split: option.splits)








text \<open>
  Claim C10. For an id that neither the mirror nor the table holds, \<open>update_success_rate\<close>
  returns without an exception and leaves the table and the mirror as they were, so no count
  and no rate of a stored script changes.
\<close>

theorem update_success_rate_unknown_id:
  "scripts sg sid = None \<and> db sid = None \<longrightarrow>
   update_success_rate sid success commit_ok db sg = (None, db, sg)"
  by (simp add: update_success_rate_def get_script_def)

theorem update_success_rate_unknown_id_witness:
  "scripts \<lparr>scripts = [''s1'' \<mapsto> fresh_script ''s1'' ''hello'']\<rparr> ''s2'' = None \<and>
   (Map.empty :: script_table) ''s2'' = None \<and>
   update_success_rate ''s2'' True True Map.empty
     \<lparr>scripts = [''s1'' \<mapsto> fresh_script ''s1'' ''hello'']\<rparr>
   = (None, Map.empty, \<lparr>scripts = [''s1'' \<mapsto> fresh_script ''s1'' ''hello'']\<rparr>)"
proof -
  let ?sg = "\<lparr>scripts = [''s1'' \<mapsto> fresh_script ''s1'' ''hello'']\<rparr>"
  have h: "scripts ?sg ''s2'' = None \<and> (Map.empty :: script_table) ''s2'' = None" by simp
  from mp[OF update_success_rate_unknown_id[of ?sg "''s2''" Map.empty True True] h] h
  show ?thesis by blast
qed

lemma variants_loop_all:
  "g variant_system_prompt (variant_prompt n1 d1 script) = Inr t1 \<Longrightarrow>
   variants_loop g script ((n1, d1) # rest) acc = variants_loop g script rest (acc @ [t1])"
  by simp

lemma variants_loop_fail:
  "g variant_system_prompt (variant_prompt n1 d1 script) = Inl e \<Longrightarrow>
   variants_loop g script ((n1, d1) # rest) acc = Inl e"
  by simp

lemma answer_unfold:
  "answer g script 0 = g variant_system_prompt
      (variant_prompt ''formal version'' ''use a formal, professional style'' script)"
  "answer g script 1 = g variant_system_prompt
      (variant_prompt ''friendly version'' ''use a friendly, warm style'' script)"
  "answer g script 2 = g variant_system_prompt
      (variant_prompt ''concise version'' ''use a concise, direct style'' script)"
  by (simp_all add: answer_def styles_def)

lemma loop_cases:
  "variants_loop g script styles [] =
     (case answer g script 0 of Inl e \<Rightarrow> Inl e
      | Inr t0 \<Rightarrow> (case answer g script 1 of Inl e \<Rightarrow> Inl e
         | Inr t1 \<Rightarrow> (case answer g script 2 of Inl e \<Rightarrow> Inl e
            | Inr t2 \<Rightarrow> Inr [t0, t1, t2])))"
  unfolding answer_unfold by (simp add: styles_def split: sum.splits)

lemma service_answers:
  "answer (llm_service has_client api) script i =
     Inr (LLMService_generate_response has_client api variant_system_prompt
            (variant_prompt (fst (styles ! i)) (snd (styles ! i)) script) None [])"
  by (simp add: answer_def llm_service_def)

text \<open>
  Claim C7, as amended. When the collaborator answers all three requests, the variants are
  its three answers. When any of the three requests raises, every variant is replaced by its
  fallback text, a label followed by the first 100 characters of the script and three dots:
  the answers already received are dropped. In both cases the operation completes with three
  variants. The service of this repository answers every request, a failure of its API call
  by a canned reply, so with it the three variants are its three answers.
\<close>

theorem generate_variants_all_or_fallback:
  "(answer g script 0 = Inr t0 \<and> answer g script 1 = Inr t1 \<and> answer g script 2 = Inr t2
      \<longrightarrow> generate_variants g script = [t0, t1, t2]) \<and>
   ((\<exists>e. answer g script 0 = Inl e) \<or> (\<exists>e. answer g script 1 = Inl e) \<or>
    (\<exists>e. answer g script 2 = Inl e)
      \<longrightarrow> generate_variants g script = fallback_variants script) \<and>
   length (generate_variants g script) = 3 \<and>
   (\<exists>r0 r1 r2.
      answer (llm_service has_client api) script 0 = Inr r0 \<and>
      answer (llm_service has_client api) script 1 = Inr r1 \<and>
      answer (llm_service has_client api) script 2 = Inr r2 \<and>
      generate_variants (llm_service has_client api) script = [r0, r1, r2])"
proof (intro conjI impI)
  assume "answer g script 0 = Inr t0 \<and> answer g script 1 = Inr t1 \<and> answer g script 2 = Inr t2"
  then show "generate_variants g script = [t0, t1, t2]"
    by (simp add: generate_variants_def loop_cases)
next
  assume "(\<exists>e. answer g script 0 = Inl e) \<or> (\<exists>e. answer g script 1 = Inl e) \<or>
    (\<exists>e. answer g script 2 = Inl e)"
  then have "\<exists>e. variants_loop g script styles [] = Inl e"
    unfolding loop_cases by (auto split: sum.splits)
  then show "generate_variants g script = fallback_variants script"
    by (auto simp: generate_variants_def fallback_variants_def)
next
  show "length (generate_variants g script) = 3"
    by (simp add: generate_variants_def loop_cases fallback_variants_def split: sum.splits)
next
  show "\<exists>r0 r1 r2.
      answer (llm_service has_client api) script 0 = Inr r0 \<and>
      answer (llm_service has_client api) script 1 = Inr r1 \<and>
      answer (llm_service has_client api) script 2 = Inr r2 \<and>
      generate_variants (llm_service has_client api) script = [r0, r1, r2]"
    by (simp add: generate_variants_def loop_cases service_answers)
qed

lemma formal_only_answers:
  "answer formal_only ''hello'' 0 = Inr ''FORMAL TEXT''"
  "answer formal_only ''hello'' 1 = Inl LLMError"
  by code_simp+

lemma formal_only_answers_Suc: "answer formal_only ''hello'' (Suc 0) = Inl LLMError"
  using formal_only_answers(2) by simp

text \<open>
  The claim as stated fails: the formal variant is generated, the friendly one raises, and
  the formal text is not kept.
\<close>

theorem generate_variants_counterexample:
  "answer formal_only ''hello'' 0 = Inr ''FORMAL TEXT'' \<and>
   answer formal_only ''hello'' 1 = Inl LLMError \<and>
   generate_variants formal_only ''hello'' =
     [''Variant 1 (formal): hello...'', ''Variant 2 (friendly): hello...'',
      ''Variant 3 (concise): hello...''] \<and>
   ''FORMAL TEXT'' \<notin> set (generate_variants formal_only ''hello'')"
proof -
  have f: "generate_variants formal_only ''hello'' = fallback_variants ''hello''"
    by (simp add: generate_variants_def loop_cases formal_only_answers formal_only_answers_Suc
        fallback_variants_def)
  show ?thesis
    unfolding f
    by (simp add: formal_only_answers formal_only_answers_Suc fallback_variants_def)
qed

theorem generate_variants_all_or_fallback_witness:
  "(\<exists>e. answer formal_only ''hello'' 1 = Inl e) \<and>
   generate_variants formal_only ''hello'' = fallback_variants ''hello'' \<and>
   answer (\<lambda>sp um. Inr ''ok'') ''hello'' 0 = Inr ''ok'' \<and>
   generate_variants (\<lambda>sp um. Inr ''ok'') ''hello'' = [''ok'', ''ok'', ''ok'']"
proof -
  have e: "\<exists>e. answer formal_only ''hello'' 1 = Inl e"
    by (simp add: formal_only_answers_Suc)
  then have d: "(\<exists>e. answer formal_only ''hello'' 0 = Inl e) \<or>
      (\<exists>e. answer formal_only ''hello'' 1 = Inl e) \<or>
      (\<exists>e. answer formal_only ''hello'' 2 = Inl e)" by blast
  note fb = mp[OF conjunct1[OF conjunct2[OF
          generate_variants_all_or_fallback[of formal_only "''hello''"]]] d]
  have a: "answer (\<lambda>sp um. Inr ''ok'') ''hello'' 0 = Inr ''ok'' \<and>
      answer (\<lambda>sp um. Inr ''ok'') ''hello'' 1 = Inr ''ok'' \<and>
      answer (\<lambda>sp um. Inr ''ok'') ''hello'' 2 = Inr ''ok''"
    by (simp add: answer_def)
  note ok = mp[OF conjunct1[OF generate_variants_all_or_fallback[of "\<lambda>sp um. Inr ''ok''"
          "''hello''" "''ok''" "''ok''" "''ok''"]] a]
  show ?thesis by (intro conjI e fb conjunct1[OF a] ok)
qed

text \<open>
  With the service of this repository and an API that fails on the friendly version only,
  that variant is the canned reply of the service, which is not made from the script, and
  the other two are the texts of the API.
\<close>

lemma friendly_fails_replies:
  "LLMService_generate_response True friendly_fails variant_system_prompt
     (variant_prompt (fst (styles ! 0)) (snd (styles ! 0)) ''hello'') None [] = ''API TEXT''"
  "LLMService_generate_response True friendly_fails variant_system_prompt
     (variant_prompt (fst (styles ! 1)) (snd (styles ! 1)) ''hello'') None [] = canned_script"
  "LLMService_generate_response True friendly_fails variant_system_prompt
     (variant_prompt (fst (styles ! 2)) (snd (styles ! 2)) ''hello'') None [] = ''API TEXT''"
  by code_simp+

lemma service_variants_canned:
  "generate_variants (llm_service True friendly_fails) ''hello''
   = [''API TEXT'', canned_script, ''API TEXT'']"
proof -
  have "answer (llm_service True friendly_fails) ''hello'' 0 = Inr ''API TEXT''"
    "answer (llm_service True friendly_fails) ''hello'' (Suc 0) = Inr canned_script"
    "answer (llm_service True friendly_fails) ''hello'' 2 = Inr ''API TEXT''"
    using friendly_fails_replies by (simp_all add: service_answers)
  then show ?thesis by (simp add: generate_variants_def loop_cases)
qed

section \<open>The context of a chat and the feedback rule\<close>

lemma build_context_last:
  "history \<noteq> [] \<Longrightarrow>
   build_context [] history =
     ''Recent conversation scenario: '' @ str_opt (conv_scenario (last history))"
  by (simp add: build_context_def)

lemma sample_history:
  "query_history
     [sample_conversation ''c1'' ''cold call'' 100 None,
      sample_conversation ''c2'' ''closing'' 200 None] ''u1'' 10
   = [sample_conversation ''c2'' ''closing'' 200 None,
      sample_conversation ''c1'' ''cold call'' 100 None]"
  by code_simp

text \<open>
  Claim C8 fails on the code. The subject has two conversations in the table, \<open>c1\<close> on the
  scenario \<open>cold call\<close> and the later \<open>c2\<close> on \<open>closing\<close>, and none in memory. The history that
  \<open>chat\<close> loads is most recent first, \<open>c2\<close> then \<open>c1\<close>, and the scenario line of the context is
  taken from its last element, the older \<open>c1\<close>, not from the most recent conversation.
\<close>

theorem context_summary_from_oldest:
  "get_conversation_history 0 0 None
     [sample_conversation ''c1'' ''cold call'' 100 None,
      sample_conversation ''c2'' ''closing'' 200 None] ''u1'' 10
   = Inr ([sample_conversation ''c2'' ''closing'' 200 None,
           sample_conversation ''c1'' ''cold call'' 100 None], None) \<and>
   conv_created_at (sample_conversation ''c1'' ''cold call'' 100 None)
     < conv_created_at (sample_conversation ''c2'' ''closing'' 200 None) \<and>
   map_sum id fst
     (chat_context 0 0 None
        [sample_conversation ''c1'' ''cold call'' 100 None,
         sample_conversation ''c2'' ''closing'' 200 None] [] ''u1''
        \<lparr>conversation_history = Map.empty\<rparr>)
   = Inr ''Recent conversation scenario: cold call''"
proof -
  let ?c1 = "sample_conversation ''c1'' ''cold call'' 100 None"
  let ?c2 = "sample_conversation ''c2'' ''closing'' 200 None"
  have g: "get_conversation_history 0 0 None [?c1, ?c2] ''u1'' 10 = Inr ([?c2, ?c1], None)"
    by (simp add: get_conversation_history_def sample_history)
  have t: "conv_created_at ?c1 < conv_created_at ?c2"
    by (simp add: sample_conversation_def)
  have b: "build_context [] [?c2, ?c1] = ''Recent conversation scenario: cold call''"
    by (simp add: build_context_last) (simp add: sample_conversation_def str_opt_def)
  have c: "map_sum id fst
     (chat_context 0 0 None [?c1, ?c2] [] ''u1'' \<lparr>conversation_history = Map.empty\<rparr>)
     = Inr ''Recent conversation scenario: cold call''"
    by (simp add: chat_context_def g b)
  show ?thesis by (intro conjI g t c)
qed

lemma assign_ids_kinds:
  "map (\<lambda>i. (li_insight_type i, li_confidence i)) (assign_ids new_id k found)
   = map (\<lambda>i. (li_insight_type i, li_confidence i)) found"
  by (induction found arbitrary: k) auto

lemma assign_ids_filter:
  "feedback_kinds (assign_ids new_id k found) = feedback_kinds found"
  by (induction found arbitrary: k) (auto simp: feedback_kinds_def)

lemma pattern_kinds: "feedback_kinds (map (pattern_insight now) issues) = []"
  by (induction issues) (auto simp: feedback_kinds_def pattern_insight_def)

lemma feedback_kinds_append:
  "feedback_kinds (xs @ ys) = feedback_kinds xs @ feedback_kinds ys"
  by (simp add: feedback_kinds_def)

lemma analyze_kinds:
  "feedback_kinds (fst (analyze_conversation float_str new_id commit_ok now c table ls))
   = feedback_kinds (feedback_insights float_str now c)"
  by (simp add: analyze_conversation_def Let_def assign_ids_filter feedback_kinds_append
      pattern_kinds)

text \<open>
  The feedback rule as the code has it: for a score that is not 0, a strength insight with
  confidence 0.9 from 4.5 up, an improvement insight with confidence 0.85 up to 2.5, and
  neither in between.
\<close>

lemma feedback_rule:
  assumes "conv_feedback_score c = Some score" and "score \<noteq> 0"
  shows "feedback_kinds (fst (analyze_conversation float_str new_id commit_ok now c table ls))
     = (if score \<ge> 9 / 2 then [(''strength'', 9 / 10)]
        else if score \<le> 5 / 2 then [(''improvement'', 85 / 100)]
        else [])"
proof -
  have "feedback_kinds (feedback_insights float_str now c)
     = (if score \<ge> 9 / 2 then [(''strength'', 9 / 10)]
        else if score \<le> 5 / 2 then [(''improvement'', 85 / 100)]
        else [])"
    using assms by (simp add: feedback_insights_def feedback_kinds_def)
  then show ?thesis by (simp only: analyze_kinds)
qed

text \<open>
  Claim C1 fails on the code at the score 0, which the feedback endpoint accepts: the
  conversation has a feedback score, the score is at most 2.5, and no improvement insight
  is emitted, because the test \<open>if conversation.feedback_score:\<close> takes 0 for no score.
\<close>

theorem no_improvement_insight_at_score_zero:
  "conv_feedback_score (sample_conversation ''c0'' ''cold call'' 100 (Some 0)) = Some 0 \<and>
   (0 :: rat) \<le> 5 / 2 \<and>
   fst (analyze_conversation (\<lambda>score. ''0.0'') (\<lambda>k. ''insight_0'') True 100
          (sample_conversation ''c0'' ''cold call'' 100 (Some 0)) []
          \<lparr>insights = Map.empty\<rparr>) = []"
  by (simp add: analyze_conversation_def feedback_insights_def identify_common_issues_def
      sample_conversation_def)

end
